theory Spec2Isabelle
  imports Complex_Main
begin

section \<open>Theme resolver (src/themes/theme.ts)\<close>

text \<open>
  A style field is either a plain value or a function of the element. The source tells
  the two apart with \<^verbatim>\<open>typeof value === 'function'\<close>; the constructor of the
  datatype is that runtime tag. The second type parameter is what the callback receives:
  for the theme helpers the element parameter is optional (\<^verbatim>\<open>edge?: GraphEdge\<close>),
  so it is an \<open>option\<close> with \<open>None\<close> for an absent element. A result that may be
  \<^verbatim>\<open>undefined\<close> is an \<open>option\<close> as well.
\<close>

datatype ('t, 'x) style_value =
    is_Literal: Literal (the_value: 't)
  | is_Callable: Callable (the_function: "'x \<Rightarrow> 't")

definition getEdgeThemeColor ::
  "('c option, 'e option) style_value \<Rightarrow> 'e option \<Rightarrow> 'c option" where
  "getEdgeThemeColor colorValue edge =
     (case colorValue of
        Callable f \<Rightarrow> f edge
      | Literal v \<Rightarrow> v)"

definition getEdgeThemeNumber ::
  "(real option, 'e option) style_value \<Rightarrow> 'e option \<Rightarrow> real option" where
  "getEdgeThemeNumber val edge =
     (case val of
        Callable f \<Rightarrow> f edge
      | Literal v \<Rightarrow> v)"

definition getNodeThemeNumber ::
  "(real option, 'n option) style_value \<Rightarrow> 'n option \<Rightarrow> real option" where
  "getNodeThemeNumber val node =
     (case val of
        Callable f \<Rightarrow> f node
      | Literal v \<Rightarrow> v)"

text \<open>
  The reference operation, written from the specification's contract
  \<^verbatim>\<open>resolve(value, element)\<close>: a callable value is invoked with the element and its
  result returned as it is, any other value is returned unchanged.
\<close>

definition resolve :: "('t, 'x) style_value \<Rightarrow> 'x \<Rightarrow> 't" where
  "resolve val element =
     (if is_Callable val then (the_function val) element else the_value val)"

section \<open>Circular image renderer (src/symbols/nodes/CircularImage.tsx)\<close>

subsection \<open>Border fields\<close>

text \<open>
  The five \<^verbatim>\<open>useMemo\<close> blocks that resolve the border props against the node.
  The older renderer kept beside the label component has the same five blocks.
\<close>

definition resolvedBorderEnabled :: "(bool, 'n) style_value \<Rightarrow> 'n \<Rightarrow> bool" where
  "resolvedBorderEnabled borderEnabled node =
     (case borderEnabled of
        Callable f \<Rightarrow> f node
      | Literal v \<Rightarrow> v)"

definition resolvedBorderColor :: "(string, 'n) style_value \<Rightarrow> 'n \<Rightarrow> string" where
  "resolvedBorderColor borderColor node =
     (case borderColor of
        Callable f \<Rightarrow> f node
      | Literal v \<Rightarrow> v)"

definition resolvedBorderThickness :: "(real, 'n) style_value \<Rightarrow> 'n \<Rightarrow> real" where
  "resolvedBorderThickness borderThickness node =
     (case borderThickness of
        Callable f \<Rightarrow> f node
      | Literal v \<Rightarrow> v)"

definition resolvedBorderOpacity :: "(real, 'n) style_value \<Rightarrow> 'n \<Rightarrow> real" where
  "resolvedBorderOpacity borderOpacity node =
     (case borderOpacity of
        Callable f \<Rightarrow> f node
      | Literal v \<Rightarrow> v)"

definition resolvedBorderInnerRadius :: "(real, 'n) style_value \<Rightarrow> 'n \<Rightarrow> real" where
  "resolvedBorderInnerRadius borderInnerRadius node =
     (case borderInnerRadius of
        Callable f \<Rightarrow> f node
      | Literal v \<Rightarrow> v)"

subsection \<open>Load state\<close>

text \<open>
  A JavaScript number that results from \<^verbatim>\<open>naturalWidth / naturalHeight\<close>: a finite
  quotient, \<^verbatim>\<open>Infinity\<close> (a positive width over height 0) or \<^verbatim>\<open>NaN\<close> (0 over 0).
  Finite quotients are taken over the reals.
\<close>

datatype jsnum = Num real | PosInfinity | NaN

definition js_div :: "nat \<Rightarrow> nat \<Rightarrow> jsnum" where
  "js_div w h =
     (if h = 0 then (if w = 0 then NaN else PosInfinity)
      else Num (real w / real h))"

record ImageLoadState =
  isLoading :: bool
  hasLoaded :: bool
  hasError :: bool
  aspectRatio :: jsnum

text \<open>The argument of \<^verbatim>\<open>useState\<close>.\<close>

definition initialLoadState :: ImageLoadState where
  "initialLoadState =
     \<lparr>isLoading = True, hasLoaded = False, hasError = False, aspectRatio = Num 1\<rparr>"

text \<open>The three state updates of the texture memo: at the start of a load, in the
  probe's \<^verbatim>\<open>onload\<close>, and in the loader's \<^verbatim>\<open>onError\<close>.\<close>

definition startLoadState :: "ImageLoadState \<Rightarrow> ImageLoadState" where
  "startLoadState prev = prev\<lparr>isLoading := True, hasLoaded := False, hasError := False\<rparr>"

definition loadedState :: "jsnum \<Rightarrow> ImageLoadState" where
  "loadedState ratio =
     \<lparr>isLoading = False, hasLoaded = True, hasError = False, aspectRatio = ratio\<rparr>"

definition errorState :: "ImageLoadState \<Rightarrow> ImageLoadState" where
  "errorState prev = prev\<lparr>isLoading := False, hasError := True\<rparr>"

subsection \<open>The component instance\<close>

text \<open>
  The \<^verbatim>\<open>image\<close> prop is a string that may be missing (\<open>None\<close> is \<^verbatim>\<open>undefined\<close>).
  \<^verbatim>\<open>!image\<close> holds for a missing and for an empty string: the first two branches of
  \<open>imageTextureMemo\<close> below.
\<close>

text \<open>
  An instance holds its load state, the image prop of its last render, and the
  asynchronous work it has started and that has not called back yet: the
  \<^verbatim>\<open>TextureLoader.load\<close> requests and the \<^verbatim>\<open>new Image()\<close> probes, each with the
  image string its callbacks close over.
\<close>

record component =
  loadState :: ImageLoadState
  image_prop :: "string option"
  textureRequests :: "string list"
  imageProbes :: "string list"

text \<open>The body of the \<^verbatim>\<open>imageTexture\<close> memo, run for the image of the render.\<close>

definition imageTextureMemo :: "component \<Rightarrow> string option \<Rightarrow> component" where
  "imageTextureMemo c img =
     (case img of
        None \<Rightarrow> c\<lparr>image_prop := img\<rparr>
      | Some s \<Rightarrow>
          (if s = [] then c\<lparr>image_prop := img\<rparr>
           else c\<lparr>loadState := startLoadState (loadState c),
                  image_prop := img,
                  textureRequests := textureRequests c @ [s]\<rparr>))"

definition mount :: "string option \<Rightarrow> component" where
  "mount img =
     imageTextureMemo
       \<lparr>loadState = initialLoadState, image_prop = img,
        textureRequests = [], imageProbes = []\<rparr> img"

text \<open>
  What can happen to a mounted instance: a render with an image prop (the memo runs again
  only when the prop differs from the last one), and the callbacks of the work in
  flight. A callback can only come from a request that was started and has not called
  back; a probe has no \<^verbatim>\<open>onerror\<close> handler, so its failure changes nothing.
\<close>

datatype event =
    SetImage "string option"
  | TextureLoaded string
  | TextureFailed string
  | ProbeLoaded string nat nat
  | ProbeFailed string

fun step :: "component \<Rightarrow> event \<Rightarrow> component option" where
  "step c (SetImage img) =
     Some (if img = image_prop c then c else imageTextureMemo c img)"
| "step c (TextureLoaded r) =
     (if r \<in> set (textureRequests c)
      then Some (c\<lparr>textureRequests := remove1 r (textureRequests c),
                    imageProbes := imageProbes c @ [r]\<rparr>)
      else None)"
| "step c (TextureFailed r) =
     (if r \<in> set (textureRequests c)
      then Some (c\<lparr>loadState := errorState (loadState c),
                    textureRequests := remove1 r (textureRequests c)\<rparr>)
      else None)"
| "step c (ProbeLoaded r w h) =
     (if r \<in> set (imageProbes c)
      then Some (c\<lparr>loadState := loadedState (js_div w h),
                    imageProbes := remove1 r (imageProbes c)\<rparr>)
      else None)"
| "step c (ProbeFailed r) =
     (if r \<in> set (imageProbes c)
      then Some (c\<lparr>imageProbes := remove1 r (imageProbes c)\<rparr>)
      else None)"

fun run :: "component \<Rightarrow> event list \<Rightarrow> component option" where
  "run c [] = Some c"
| "run c (e # es) = (case step c e of None \<Rightarrow> None | Some c' \<Rightarrow> run c' es)"

text \<open>No asynchronous work is in flight.\<close>

definition settled :: "component \<Rightarrow> bool" where
  "settled c = (textureRequests c = [] \<and> imageProbes c = [])"

subsection \<open>What a render shows\<close>

datatype texture = PlaceholderTexture | ImageTexture string

definition imageTexture :: "component \<Rightarrow> texture" where
  "imageTexture c =
     (case image_prop c of
        None \<Rightarrow> PlaceholderTexture
      | Some s \<Rightarrow> (if s = [] then PlaceholderTexture else ImageTexture s))"

text \<open>The uniforms of the shader material that depend on the load state.\<close>

record uniforms =
  map_uniform :: texture
  aspectRatio_uniform :: jsnum
  isPlaceholder_uniform :: real

definition shaderMaterial :: "component \<Rightarrow> uniforms" where
  "shaderMaterial c =
     \<lparr>map_uniform =
        (if hasLoaded (loadState c) then imageTexture c else PlaceholderTexture),
      aspectRatio_uniform =
        (if hasLoaded (loadState c) then aspectRatio (loadState c) else Num 1),
      isPlaceholder_uniform = (if \<not> hasLoaded (loadState c) then 1 else 0)\<rparr>"

text \<open>The loading indicator is in the tree exactly when \<^verbatim>\<open>loadState.isLoading\<close>.\<close>

definition loadingIndicator :: "component \<Rightarrow> bool" where
  "loadingIndicator c = isLoading (loadState c)"

subsection \<open>The fragment shader's sampling coordinate\<close>

text \<open>
  GLSL \<^verbatim>\<open>clamp(x, minVal, maxVal)\<close> is \<^verbatim>\<open>min(max(x, minVal), maxVal)\<close>. The
  coordinates are taken over the reals. \<open>sampleUv\<close> follows the shader from
  \<^verbatim>\<open>vec2 uv = vUv - 0.5\<close> to the clamp, for the uniforms \<^verbatim>\<open>isPlaceholder\<close> and
  \<^verbatim>\<open>aspectRatio\<close> and the varying \<^verbatim>\<open>vUv\<close>.
\<close>

definition clamp :: "real \<Rightarrow> real \<Rightarrow> real \<Rightarrow> real" where
  "clamp x minVal maxVal = min (max x minVal) maxVal"

definition sampleUv :: "real \<Rightarrow> real \<Rightarrow> real \<times> real \<Rightarrow> real \<times> real" where
  "sampleUv isPlaceholder ratio vUv =
     (let (ux, uy) = (fst vUv - 0.5, snd vUv - 0.5);
          (ux, uy) =
            (if isPlaceholder > 0.5 then (ux * 0.6, uy * 0.6)
             else
               (let (ux, uy) =
                      (if ratio > 1 then (ux / ratio, uy)
                       else if ratio < 1 then (ux, uy * ratio)
                       else (ux, uy))
                in (ux * 0.95, uy * 0.95)));
          (ux, uy) = (ux + 0.5, uy + 0.5)
      in (clamp ux 0 1, clamp uy 0 1))"

subsection \<open>Springs\<close>









subsection \<open>The border ring\<close>

text \<open>
  The props of the \<^verbatim>\<open>Ring\<close> element drawn for the border. The renderer passes
  \<^verbatim>\<open>segments={64}\<close>; the older renderer passes no \<^verbatim>\<open>segments\<close>. A border prop
  that is not supplied takes its default from the destructuring pattern.
  \<^verbatim>\<open>Math.max\<close> is taken over the reals.
\<close>

record ring =
  innerRadius :: real
  ringSize :: real
  ringColor :: string
  opacity_prop :: real
  strokeWidth :: real
  segments :: "nat option"

definition orDefault :: "'a \<Rightarrow> 'a option \<Rightarrow> 'a" where
  "orDefault d v = (case v of None \<Rightarrow> d | Some x \<Rightarrow> x)"

definition borderRing ::
  "(bool, 'n) style_value option \<Rightarrow> (string, 'n) style_value option \<Rightarrow>
   (real, 'n) style_value option \<Rightarrow> (real, 'n) style_value option \<Rightarrow>
   (real, 'n) style_value option \<Rightarrow> real \<Rightarrow> 'n \<Rightarrow> ring option" where
  "borderRing borderEnabled borderColor borderThickness borderOpacity borderInnerRadius
       nodeSize node =
     (if resolvedBorderEnabled (orDefault (Literal False) borderEnabled) node
      then Some
        \<lparr>innerRadius =
           max 0.1 (resolvedBorderInnerRadius (orDefault (Literal 0.8) borderInnerRadius) node),
         ringSize = nodeSize * 1.8,
         ringColor = resolvedBorderColor (orDefault (Literal ''#000000'') borderColor) node,
         opacity_prop = resolvedBorderOpacity (orDefault (Literal 1.0) borderOpacity) node,
         strokeWidth = resolvedBorderThickness (orDefault (Literal 2) borderThickness) node,
         segments = Some 64\<rparr>
      else None)"

definition borderRingOlder ::
  "(bool, 'n) style_value option \<Rightarrow> (string, 'n) style_value option \<Rightarrow>
   (real, 'n) style_value option \<Rightarrow> (real, 'n) style_value option \<Rightarrow>
   (real, 'n) style_value option \<Rightarrow> real \<Rightarrow> 'n \<Rightarrow> ring option" where
  "borderRingOlder borderEnabled borderColor borderThickness borderOpacity borderInnerRadius
       nodeSize node =
     (if resolvedBorderEnabled (orDefault (Literal False) borderEnabled) node
      then Some
        \<lparr>innerRadius =
           max 0.1 (resolvedBorderInnerRadius (orDefault (Literal 0.8) borderInnerRadius) node),
         ringSize = nodeSize * 1.8,
         ringColor = resolvedBorderColor (orDefault (Literal ''#000000'') borderColor) node,
         opacity_prop = resolvedBorderOpacity (orDefault (Literal 1.0) borderOpacity) node,
         strokeWidth = resolvedBorderThickness (orDefault (Literal 2) borderThickness) node,
         segments = None\<rparr>
      else None)"

subsection \<open>Vocabulary of the statements\<close>



definition flags :: "ImageLoadState \<Rightarrow> bool \<times> bool \<times> bool" where
  "flags s = (isLoading s, hasLoaded s, hasError s)"


section \<open>Facts used below\<close>

lemmas machine_defs = mount_def imageTextureMemo_def startLoadState_def initialLoadState_def
  errorState_def loadedState_def



lemma clamp_unit: "0 \<le> clamp x 0 1 \<and> clamp x 0 1 \<le> 1"
  by (simp add: clamp_def)

section \<open>The load-state machine\<close>




text \<open>
  C2, as stated, fails. After \<^verbatim>\<open>a.png\<close> has loaded with ratio 2, the assignment of
  \<^verbatim>\<open>b.png\<close> resets the three flags but keeps \<open>aspectRatio = 2\<close>
  (\<^verbatim>\<open>...prev\<close>): the state is not the initial one.
\<close>

theorem C2_aspect_ratio_is_kept:
  "map_option loadState
     (run (mount (Some ''a.png''))
        [TextureLoaded ''a.png'', ProbeLoaded ''a.png'' 2 1, SetImage (Some ''b.png'')])
     = Some \<lparr>isLoading = True, hasLoaded = False, hasError = False, aspectRatio = Num 2\<rparr>
   \<and> map_option loadState
     (run (mount (Some ''a.png''))
        [TextureLoaded ''a.png'', ProbeLoaded ''a.png'' 2 1, SetImage (Some ''b.png'')])
     \<noteq> Some initialLoadState"
  by (simp add: machine_defs js_div_def)

text \<open>
  C2, amended. Whenever the image prop changes to a non-empty image, whatever the state
  before, the flags become \<open>isLoading = True\<close>, \<open>hasLoaded = False\<close>, \<open>hasError = False\<close>
  and the \<open>aspectRatio\<close> field keeps its previous value; the aspect ratio handed to the
  shader is 1 from then on, until a load completes.
\<close>

theorem C2_flags_reset_on_new_image:
  "s \<noteq> [] \<Longrightarrow> image_prop c \<noteq> Some s \<Longrightarrow>
     (\<exists>c'. step c (SetImage (Some s)) = Some c'
        \<and> loadState c' =
            \<lparr>isLoading = True, hasLoaded = False, hasError = False,
             aspectRatio = aspectRatio (loadState c)\<rparr>
        \<and> aspectRatio_uniform (shaderMaterial c') = Num 1)"
  by (auto simp: machine_defs shaderMaterial_def)

text \<open>The amended C2 at an instance that shows \<^verbatim>\<open>a.png\<close> loaded with ratio 2.\<close>

theorem C2_flags_reset_on_new_image_witness:
  "step \<lparr>loadState = loadedState (Num 2), image_prop = Some ''a.png'',
          textureRequests = [], imageProbes = []\<rparr> (SetImage (Some ''b.png''))
     = Some \<lparr>loadState =
           \<lparr>isLoading = True, hasLoaded = False, hasError = False, aspectRatio = Num 2\<rparr>,
         image_prop = Some ''b.png'', textureRequests = [''b.png''], imageProbes = []\<rparr>"
  using C2_flags_reset_on_new_image [of "''b.png''"
      "\<lparr>loadState = loadedState (Num 2), image_prop = Some ''a.png'',
        textureRequests = [], imageProbes = []\<rparr>"]
  by (simp add: machine_defs)

text \<open>
  C3, the code at a missing and at an empty image. No request is started and the
  material shows the placeholder, as the claim says; but the load state is still the
  initial one, with \<open>isLoading = True\<close>, and the loading indicator is drawn. A later
  render with a missing or empty image changes nothing.
\<close>

theorem C3_no_image_keeps_loading:
  "loadState (mount None) = initialLoadState
   \<and> isLoading (loadState (mount None))
   \<and> loadingIndicator (mount None)
   \<and> textureRequests (mount None) = [] \<and> imageProbes (mount None) = []
   \<and> map_uniform (shaderMaterial (mount None)) = PlaceholderTexture
   \<and> loadState (mount (Some [])) = initialLoadState
   \<and> isLoading (loadState (mount (Some [])))
   \<and> loadingIndicator (mount (Some []))
   \<and> textureRequests (mount (Some [])) = [] \<and> imageProbes (mount (Some [])) = []
   \<and> map_uniform (shaderMaterial (mount (Some []))) = PlaceholderTexture
   \<and> map_option loadingIndicator (run (mount (Some [])) [SetImage None, SetImage (Some [])])
       = Some True"
  by (simp add: machine_defs loadingIndicator_def shaderMaterial_def)

text \<open>
  C4, the code at its failing input. \<^verbatim>\<open>a.png\<close> is assigned, then \<^verbatim>\<open>b.png\<close>; the load of
  \<^verbatim>\<open>a.png\<close> (2:1) completes, then the load of \<^verbatim>\<open>b.png\<close> fails. The error update keeps
  \<open>hasLoaded\<close>, so with nothing left in flight \<open>hasLoaded\<close> and \<open>hasError\<close> are both true.
\<close>

theorem C4_loaded_and_error_together:
  "run (mount (Some ''a.png''))
     [SetImage (Some ''b.png''), TextureLoaded ''a.png'', ProbeLoaded ''a.png'' 2 1,
      TextureFailed ''b.png'']
   = Some \<lparr>loadState =
         \<lparr>isLoading = False, hasLoaded = True, hasError = True, aspectRatio = Num 2\<rparr>,
       image_prop = Some ''b.png'', textureRequests = [], imageProbes = []\<rparr>
   \<and> settled \<lparr>loadState =
         \<lparr>isLoading = False, hasLoaded = True, hasError = True, aspectRatio = Num 2\<rparr>,
       image_prop = Some ''b.png'', textureRequests = [], imageProbes = []\<rparr>"
  by (simp add: machine_defs js_div_def settled_def)

text \<open>
  C7, the code at the two scenarios and at its failing input. Mounted with
  \<^verbatim>\<open>valid.png\<close> of 200 by 100 pixels, the state after the decode is exactly
  \<open>isLoading = False\<close>, \<open>hasLoaded = True\<close>, \<open>hasError = False\<close>, \<open>aspectRatio = 2\<close>;
  mounted with \<^verbatim>\<open>broken.png\<close>, the failure gives \<open>hasError\<close> alone and the material
  shows the placeholder. But when \<^verbatim>\<open>a.png\<close> is assigned, then \<^verbatim>\<open>b.png\<close>, the load of
  \<^verbatim>\<open>a.png\<close> (2:1) completes and the load of the current image \<^verbatim>\<open>b.png\<close> then fails,
  the error update keeps \<open>hasLoaded\<close>: the final flags are \<open>hasLoaded\<close> and \<open>hasError\<close>
  together, and the material shows the texture of \<^verbatim>\<open>b.png\<close>, not the placeholder.
\<close>

theorem C7_failure_keeps_hasLoaded:
  "map_option loadState
     (run (mount (Some ''valid.png''))
        [TextureLoaded ''valid.png'', ProbeLoaded ''valid.png'' 200 100])
     = Some \<lparr>isLoading = False, hasLoaded = True, hasError = False, aspectRatio = Num 2\<rparr>
   \<and> map_option (\<lambda>c. (flags (loadState c), map_uniform (shaderMaterial c)))
        (run (mount (Some ''broken.png'')) [TextureFailed ''broken.png''])
       = Some ((False, False, True), PlaceholderTexture)
   \<and> map_option (\<lambda>c. (flags (loadState c), map_uniform (shaderMaterial c), settled c))
        (run (mount (Some ''a.png''))
           [SetImage (Some ''b.png''), TextureLoaded ''a.png'', ProbeLoaded ''a.png'' 2 1,
            TextureFailed ''b.png''])
       = Some ((False, True, True), ImageTexture ''b.png'', True)"
  by (simp add: machine_defs js_div_def flags_def shaderMaterial_def imageTexture_def
      settled_def)

section \<open>The theme resolver's entry points\<close>

text \<open>
  C5. Each entry point (the three theme helpers and the five border fields of the
  circular image) equals the reference operation \<open>resolve\<close>; \<open>resolve\<close> returns the
  callback's result verbatim when the value is callable, also when that result is
  \<^verbatim>\<open>undefined\<close> and the element is absent, and returns any other value unchanged.
\<close>

theorem C5_entry_points_are_resolve:
  "getEdgeThemeColor cv e = resolve cv e
   \<and> getEdgeThemeNumber nv e = resolve nv e
   \<and> getNodeThemeNumber mv n = resolve mv n
   \<and> resolvedBorderEnabled be nd = resolve be nd
   \<and> resolvedBorderColor bc nd = resolve bc nd
   \<and> resolvedBorderThickness bt nd = resolve bt nd
   \<and> resolvedBorderOpacity bo nd = resolve bo nd
   \<and> resolvedBorderInnerRadius bi nd = resolve bi nd
   \<and> resolve (Callable f) x = f x
   \<and> resolve (Literal v) x = v
   \<and> getEdgeThemeColor (Callable (\<lambda>_. None)) None = None
   \<and> getEdgeThemeNumber (Callable (\<lambda>_. None)) None = None
   \<and> getNodeThemeNumber (Callable (\<lambda>_. None)) None = None"
  by (simp add: getEdgeThemeColor_def getEdgeThemeNumber_def getNodeThemeNumber_def
      resolvedBorderEnabled_def resolvedBorderColor_def resolvedBorderThickness_def
      resolvedBorderOpacity_def resolvedBorderInnerRadius_def resolve_def
      split: style_value.split)

text \<open>
  C8. The three theme helpers implement one rule: the generic \<open>resolve\<close>, taken at the
  value and element types of each helper, is extensionally equal to it.
\<close>

theorem C8_helpers_equal_generic_resolve:
  "(getEdgeThemeColor :: ('c option, 'e option) style_value \<Rightarrow> 'e option \<Rightarrow> 'c option) = resolve
   \<and> (getEdgeThemeNumber :: (real option, 'e option) style_value \<Rightarrow> 'e option \<Rightarrow> real option) = resolve
   \<and> (getNodeThemeNumber :: (real option, 'n option) style_value \<Rightarrow> 'n option \<Rightarrow> real option) = resolve"
  by (intro conjI ext)
    (simp_all add: getEdgeThemeColor_def getEdgeThemeNumber_def getNodeThemeNumber_def
      resolve_def split: style_value.split)

section \<open>The sampling coordinate\<close>

text \<open>
  C6, as stated, fails at aspect ratio 1: the corner \<open>(0, 0)\<close> of the loaded image is
  sampled at \<open>(0.025, 0.025)\<close>, because both offsets from the centre are scaled by the
  margin 0.95 for every aspect ratio. The transform is not the identity there.
\<close>

theorem C6_not_identity_at_ratio_one:
  "sampleUv 0 1 (0, 0) = (1 / 40, 1 / 40) \<and> sampleUv 0 1 (0, 0) \<noteq> (0, 0)"
  by (simp add: sampleUv_def clamp_def)

text \<open>
  C6, amended. For every aspect ratio \<open>r > 0\<close> the sampling coordinate of the loaded image
  is, on each axis, the clamp to \<open>[0, 1]\<close> of \<open>0.5\<close> plus \<open>0.95\<close> times the offset from the
  centre after the aspect correction: the correction leaves both offsets alone when
  \<open>r = 1\<close>, divides the horizontal offset by \<open>r\<close> when \<open>r > 1\<close>, and multiplies the
  vertical offset by \<open>r\<close> when \<open>r < 1\<close>. Placeholder or image, every sampling coordinate
  lies in \<open>[0, 1]\<close>.
\<close>

theorem C6_sampling_transform:
  "0 < r \<Longrightarrow>
     (r = 1 \<longrightarrow> sampleUv 0 r (x, y) =
        (clamp ((x - 0.5) * 0.95 + 0.5) 0 1, clamp ((y - 0.5) * 0.95 + 0.5) 0 1))
   \<and> (r > 1 \<longrightarrow> sampleUv 0 r (x, y) =
        (clamp ((x - 0.5) / r * 0.95 + 0.5) 0 1, clamp ((y - 0.5) * 0.95 + 0.5) 0 1))
   \<and> (r < 1 \<longrightarrow> sampleUv 0 r (x, y) =
        (clamp ((x - 0.5) * 0.95 + 0.5) 0 1, clamp ((y - 0.5) * r * 0.95 + 0.5) 0 1))
   \<and> 0 \<le> fst (sampleUv p r (x, y)) \<and> fst (sampleUv p r (x, y)) \<le> 1
   \<and> 0 \<le> snd (sampleUv p r (x, y)) \<and> snd (sampleUv p r (x, y)) \<le> 1"
  by (simp add: sampleUv_def clamp_unit Let_def split: prod.split)

text \<open>The amended C6 at the corner \<open>(1, 0)\<close>, for the aspect ratios 1, 2 and 1/2.\<close>

theorem C6_sampling_transform_witness:
  "sampleUv 0 1 (1, 0) = (39 / 40, 1 / 40)
   \<and> sampleUv 0 2 (1, 0) = (59 / 80, 1 / 40)
   \<and> sampleUv 0 (1 / 2) (1, 0) = (39 / 40, 21 / 80)
   \<and> 0 \<le> fst (sampleUv 1 2 (1, 0)) \<and> fst (sampleUv 1 2 (1, 0)) \<le> 1"
  using C6_sampling_transform [of 1 1 0 1] C6_sampling_transform [of 2 1 0 1]
    C6_sampling_transform [of "1 / 2" 1 0 1]
  by (simp add: clamp_def)

section \<open>Scales and the border ring\<close>




text \<open>
  C10. When the resolved \<^verbatim>\<open>borderEnabled\<close> is true, the border ring is drawn with inner
  radius \<open>max 0.1 v\<close>, where \<open>v\<close> is the resolved \<^verbatim>\<open>borderInnerRadius\<close> (a constant, a
  callback's result for the node, or the default); a \<open>v\<close> below 0.1 is drawn as 0.1. The
  same holds in both renderers.
\<close>

theorem C10_border_inner_radius_clamped:
  "resolvedBorderEnabled (orDefault (Literal False) be) node \<Longrightarrow>
   v = resolvedBorderInnerRadius (orDefault (Literal 0.8) bi) node \<Longrightarrow>
     map_option innerRadius (borderRing be bc bt bo bi nodeSize node) = Some (max 0.1 v)
   \<and> map_option innerRadius (borderRingOlder be bc bt bo bi nodeSize node) = Some (max 0.1 v)
   \<and> (v < 0.1 \<longrightarrow>
        map_option innerRadius (borderRing be bc bt bo bi nodeSize node) = Some 0.1
        \<and> map_option innerRadius (borderRingOlder be bc bt bo bi nodeSize node) = Some 0.1)"
  by (simp add: borderRing_def borderRingOlder_def)

text \<open>
  C10 at a node \<^verbatim>\<open>high\<close>, a \<^verbatim>\<open>borderEnabled\<close> callback that holds for it and a
  \<^verbatim>\<open>borderInnerRadius\<close> callback that returns 0.05.
\<close>

theorem C10_border_inner_radius_clamped_witness:
  "resolvedBorderEnabled
     (orDefault (Literal False) (Some (Callable (\<lambda>n. n = ''high'')))) ''high''
   \<and> resolvedBorderInnerRadius
       (orDefault (Literal 0.8) (Some (Callable (\<lambda>n. 0.05)))) ''high'' < (0.1::real)
   \<and> map_option innerRadius
        (borderRing (Some (Callable (\<lambda>n. n = ''high''))) None None None
           (Some (Callable (\<lambda>n. 0.05))) 10 ''high'') = Some 0.1
   \<and> map_option innerRadius
        (borderRingOlder (Some (Callable (\<lambda>n. n = ''high''))) None None None
           (Some (Callable (\<lambda>n. 0.05))) 10 ''high'') = Some 0.1"
  using C10_border_inner_radius_clamped [of "Some (Callable (\<lambda>n. n = ''high''))" "''high''"
      "0.05" "Some (Callable (\<lambda>n. 0.05))" None None None 10]
  by (simp add: resolvedBorderEnabled_def resolvedBorderInnerRadius_def orDefault_def)

end
